theory Spec2Isabelle
  imports Main "HOL-Library.Sublist"
begin

section \<open>BuildLatex: a model of \<^verbatim>\<open>build_latex/__main__.py\<close>\<close>

text \<open>
  The program drives three external tools (pandoc, xelatex, biber or bibtex) and rewrites
  pandoc's output with one regular expression. The model below follows the source
  function by function. Python's \<^verbatim>\<open>str\<close> is modelled by \<^typ>\<open>string\<close>; one
  \<^typ>\<open>char\<close> stands for one code point below 256. The backslash cannot be written inside
  a string literal, so it is the character \<open>BSL\<close>.
\<close>

abbreviation BSL :: char where
  "BSL \<equiv> CHR 0x5C"

subsection \<open>The parts of \<^verbatim>\<open>os.path\<close> the program calls (POSIX flavour)\<close>

text \<open>
  \<^verbatim>\<open>posixpath.basename(p)\<close>: \<^verbatim>\<open>i = p.rfind('/') + 1; return p[i:]\<close>.
\<close>

definition basename :: "string \<Rightarrow> string" where
  "basename p = rev (takeWhile (\<lambda>c. c \<noteq> CHR ''/'') (rev p))"

text \<open>
  \<^verbatim>\<open>posixpath.dirname(p)\<close>: \<^verbatim>\<open>i = p.rfind('/') + 1; head = p[:i];
  if head and head != '/' * len(head): head = head.rstrip('/'); return head\<close>.
\<close>

definition dirname :: "string \<Rightarrow> string" where
  "dirname p =
     (let head = rev (dropWhile (\<lambda>c. c \<noteq> CHR ''/'') (rev p))
      in if head \<noteq> [] \<and> head \<noteq> replicate (length head) (CHR ''/'')
         then rev (dropWhile (\<lambda>c. c = CHR ''/'') (rev head))
         else head)"

text \<open>
  \<^verbatim>\<open>join_path(*args)\<close> is \<^verbatim>\<open>os.path.join(*args)\<close>: starting from the first
  component, a component that starts with a slash replaces the path, otherwise it is
  appended, with a slash between unless the path is empty or already ends with one.
\<close>

fun join_path :: "string \<Rightarrow> string list \<Rightarrow> string" where
  "join_path path [] = path"
| "join_path path (b # bs) =
     join_path
       (if prefix ''/'' b then b
        else if path = [] \<or> last path = CHR ''/'' then path @ b
        else path @ ''/'' @ b) bs"

subsection \<open>Command names and bundled resources\<close>

definition PANDOC :: string where "PANDOC = ''pandoc''"
definition LATEX :: string where "LATEX = ''xelatex''"
definition BIBER :: string where "BIBER = ''biber''"
definition BIBTEX :: string where "BIBTEX = ''bibtex''"

text \<open>
  \<^verbatim>\<open>ROOT_DIRECTORY\<close> is the absolute directory of the installed script; it is known
  only at run time and is a parameter \<open>root\<close> of the functions that use it.
\<close>

definition THIRD_PARTY_DIRECTORY :: "string \<Rightarrow> string" where
  "THIRD_PARTY_DIRECTORY root = join_path root [''third_party'']"

subsection \<open>Command line flags\<close>

text \<open>
  The absl flag values. A string flag without a default is \<open>None\<close> until it is given;
  \<^verbatim>\<open>filename\<close> is marked as required before \<^verbatim>\<open>main\<close> runs, so it is a string.
  \<^verbatim>\<open>simple\<close> is a boolean flag whose default is \<^verbatim>\<open>None\<close>.
\<close>

record flags =
  pandoc :: bool
  filename :: string
  metadata :: "string option"
  template :: "string option"
  part :: "string list option"
  part_output :: "string option"
  simple :: "bool option"
  standalone :: bool
  bibtex :: bool
  biblatex :: bool
  highlight :: bool
  output_dir :: "string option"
  pretty :: bool
  thesis :: bool
  markdown_tex :: bool

subsection \<open>The process state and the external programs\<close>

text \<open>
  What an external command did: it exited with a return code (and wrote something on its
  standard output), or it could not be started at all.
\<close>

datatype outcome = Exited int string | NotStarted

text \<open>
  One entry of the log of invocations: whether the command went through the shell
  (\<^verbatim>\<open>shell=True\<close>), its argument vector, and what became of it.
\<close>

datatype event = Invoke bool "string list" outcome

fun argv :: "event \<Rightarrow> string list" where
  "argv (Invoke sh cmd r) = cmd"

fun via_shell :: "event \<Rightarrow> bool" where
  "via_shell (Invoke sh cmd r) = sh"


text \<open>
  The state the program reads and writes: the global \<^verbatim>\<open>FLAGS\<close>, the current
  working directory of the process, the directories that exist, the text files by name,
  and the invocations made so far.
\<close>

record state =
  FLAGS :: flags
  cwd :: string
  is_dir :: "string \<Rightarrow> bool"
  files :: "string \<rightharpoonup> string"
  invocations :: "event list"

text \<open>
  The external programs are a parameter: given how a command is started, its argument
  vector, and the state it is started in (the invocations so far included), they say how
  the command ends and which files exist afterwards. A child process cannot change the
  working directory or the flags of the calling process.
\<close>

type_synonym programs = "bool \<Rightarrow> string list \<Rightarrow> state \<Rightarrow> outcome \<times> (string \<rightharpoonup> string)"

datatype error =
  CalledProcessError int "string list"
| OSError string

type_synonym 'a io = "state \<Rightarrow> (error + 'a) \<times> state"

text \<open>Sequencing: an exception ends the computation and keeps the state reached.\<close>

definition and_then :: "'a io \<Rightarrow> ('a \<Rightarrow> 'b io) \<Rightarrow> 'b io" where
  "and_then m f s = (case m s of (Inl e, s') \<Rightarrow> (Inl e, s') | (Inr x, s') \<Rightarrow> f x s')"

definition return :: "'a \<Rightarrow> 'a io" where
  "return x s = (Inr x, s)"

subsection \<open>\<^verbatim>\<open>os.getcwd\<close>, \<^verbatim>\<open>os.chdir\<close> and \<^verbatim>\<open>subprocess\<close>\<close>

definition getcwd :: "string io" where
  "getcwd s = (Inr (cwd s), s)"

definition chdir :: "string \<Rightarrow> unit io" where
  "chdir d s = (if is_dir s d then (Inr (), s\<lparr>cwd := d\<rparr>) else (Inl (OSError d), s))"

text \<open>Start a command, wait until it ends, record it and take over the files it left.\<close>

definition run_process :: "programs \<Rightarrow> bool \<Rightarrow> string list \<Rightarrow> state \<Rightarrow> outcome \<times> state" where
  "run_process env sh cmd s =
     (case env sh cmd s of
        (r, fs) \<Rightarrow> (r, s\<lparr>files := fs, invocations := invocations s @ [Invoke sh cmd r]\<rparr>))"

text \<open>\<^verbatim>\<open>subprocess.check_output(cmd)\<close>: the standard output, or an exception when
  the return code is not zero.\<close>

definition check_output :: "programs \<Rightarrow> string list \<Rightarrow> string io" where
  "check_output env cmd s =
     (case run_process env False cmd s of
        (Exited rc out, s') \<Rightarrow>
          if rc = 0 then (Inr out, s') else (Inl (CalledProcessError rc cmd), s')
      | (NotStarted, s') \<Rightarrow> (Inl (OSError (concat (take 1 cmd))), s'))"

text \<open>\<^verbatim>\<open>subprocess.check_call(cmd)\<close>: an exception when the return code is not zero.\<close>

definition check_call :: "programs \<Rightarrow> string list \<Rightarrow> unit io" where
  "check_call env cmd s =
     (case run_process env False cmd s of
        (Exited rc out, s') \<Rightarrow>
          if rc = 0 then (Inr (), s') else (Inl (CalledProcessError rc cmd), s')
      | (NotStarted, s') \<Rightarrow> (Inl (OSError (concat (take 1 cmd))), s'))"

text \<open>\<^verbatim>\<open>subprocess.call(cmd)\<close>: the return code, whatever it is.\<close>

definition call :: "programs \<Rightarrow> string list \<Rightarrow> int io" where
  "call env cmd s =
     (case run_process env False cmd s of
        (Exited rc out, s') \<Rightarrow> (Inr rc, s')
      | (NotStarted, s') \<Rightarrow> (Inl (OSError (concat (take 1 cmd))), s'))"

text \<open>\<^verbatim>\<open>p = subprocess.Popen(cmd, shell=True); p.wait()\<close>: the command goes through
  the shell, and the return code is the value of \<^verbatim>\<open>p.wait()\<close>.\<close>

definition Popen_shell_wait :: "programs \<Rightarrow> string list \<Rightarrow> int io" where
  "Popen_shell_wait env cmd s =
     (case run_process env True cmd s of
        (Exited rc out, s') \<Rightarrow> (Inr rc, s')
      | (NotStarted, s') \<Rightarrow> (Inl (OSError ''sh''), s'))"

subsection \<open>\<^verbatim>\<open>shell_command\<close>\<close>

text \<open>
  The arguments are \<^verbatim>\<open>cmd, throw, output, shell, cwd\<close>. The function returns the
  captured output on the \<^verbatim>\<open>throw and output\<close> path, from inside the branch, and
  \<^verbatim>\<open>None\<close> on every other path, after the second \<^verbatim>\<open>if cwd != None\<close>.
\<close>

definition shell_command ::
  "programs \<Rightarrow> string list \<Rightarrow> bool \<Rightarrow> bool \<Rightarrow> bool \<Rightarrow> string option \<Rightarrow> string option io" where
  "shell_command env cmd throw output shell cwd_arg =
     and_then getcwd (\<lambda>last_cwd.
     and_then (case cwd_arg of None \<Rightarrow> return () | Some d \<Rightarrow> chdir d) (\<lambda>_.
       if throw \<and> output then
         and_then (check_output env cmd) (\<lambda>out. return (Some out))
       else
         and_then
           (if throw then
              (if shell then and_then (Popen_shell_wait env cmd) (\<lambda>_. return ())
               else check_call env cmd)
            else and_then (call env cmd) (\<lambda>_. return ())) (\<lambda>_.
         and_then (case cwd_arg of None \<Rightarrow> return () | Some d \<Rightarrow> chdir last_cwd) (\<lambda>_.
         return None))))"

subsection \<open>\<^verbatim>\<open>call_pandoc\<close>\<close>

definition pandoc_command ::
  "flags \<Rightarrow> string \<Rightarrow> string \<Rightarrow> string \<Rightarrow> string list \<Rightarrow> string list" where
  "pandoc_command fl fname output_filename output_type args =
     (let input_type = (if markdown_tex fl then ''markdown'' else ''markdown-raw_tex'')
      in [PANDOC] @ args @
         [''-f'', input_type, ''-t'', output_type, ''-o'', output_filename, fname])"

definition call_pandoc :: "programs \<Rightarrow> string \<Rightarrow> string \<Rightarrow> string \<Rightarrow> string list \<Rightarrow> unit io" where
  "call_pandoc env fname output_filename output_type args s =
     and_then
       (shell_command env
          (pandoc_command (FLAGS s) fname output_filename output_type args)
          True False False None)
       (\<lambda>_. return ()) s"

subsection \<open>The regular expression engine, as far as the program uses it\<close>

text \<open>
  \<^verbatim>\<open>re\<close> is a backtracking matcher. The pattern of the program is built from
  literal text, a greedy \<^verbatim>\<open>+\<close> over a character class, a lazy \<^verbatim>\<open>*?\<close> over a
  character class, concatenation and capture groups; these are the constructors. The
  matcher is written with a continuation for what follows in the pattern: it returns the
  first success in the order in which the backtracking matcher tries the alternatives.
\<close>

datatype regex =
  Literal string
| OneOrMore "char \<Rightarrow> bool"
| ZeroOrMoreLazy "char \<Rightarrow> bool"
| Then regex regex
| Capture nat regex

type_synonym groups = "nat \<rightharpoonup> string"

text \<open>Greedy repetition: take a character of the class if there is one and go on;
  only when everything after that fails, stop here.\<close>

fun greedy_star :: "(char \<Rightarrow> bool) \<Rightarrow> string \<Rightarrow> (string \<Rightarrow> 'a option) \<Rightarrow> 'a option" where
  "greedy_star p [] k = k []"
| "greedy_star p (c # s) k =
     (if p c then (case greedy_star p s k of Some r \<Rightarrow> Some r | None \<Rightarrow> k (c # s))
      else k (c # s))"

text \<open>Lazy repetition: first try to stop here; only when that fails, take one more
  character of the class.\<close>

fun lazy_star :: "(char \<Rightarrow> bool) \<Rightarrow> string \<Rightarrow> (string \<Rightarrow> 'a option) \<Rightarrow> 'a option" where
  "lazy_star p [] k = k []"
| "lazy_star p (c # s) k =
     (case k (c # s) of Some r \<Rightarrow> Some r
      | None \<Rightarrow> if p c then lazy_star p s k else None)"

fun rmatch :: "regex \<Rightarrow> string \<Rightarrow> groups \<Rightarrow> (string \<Rightarrow> groups \<Rightarrow> 'a option) \<Rightarrow> 'a option" where
  "rmatch (Literal w) s g k = (if prefix w s then k (drop (length w) s) g else None)"
| "rmatch (OneOrMore p) s g k =
     (case s of [] \<Rightarrow> None
      | c # s' \<Rightarrow> if p c then greedy_star p s' (\<lambda>r. k r g) else None)"
| "rmatch (ZeroOrMoreLazy p) s g k = lazy_star p s (\<lambda>r. k r g)"
| "rmatch (Then a b) s g k = rmatch a s g (\<lambda>r g'. rmatch b r g' k)"
| "rmatch (Capture n a) s g k =
     rmatch a s g (\<lambda>r g'. k r (g'(n \<mapsto> take (length s - length r) s)))"

text \<open>A match attempt at the start of \<open>s\<close>: the text left after the match, and the
  groups.\<close>

definition match_here :: "regex \<Rightarrow> string \<Rightarrow> (string \<times> groups) option" where
  "match_here r s = rmatch r s Map.empty (\<lambda>rest g. Some (rest, g))"

text \<open>
  \<^verbatim>\<open>pattern.sub(repl, text)\<close> with a function \<open>repl\<close>: the leftmost match is
  replaced and the search goes on behind it; text that is in no match is copied. (After
  an empty match the engine copies one character and goes on; the pattern of this
  program never matches the empty string.)
\<close>

function re_sub :: "regex \<Rightarrow> (groups \<Rightarrow> string) \<Rightarrow> string \<Rightarrow> string" where
  "re_sub r repl s =
     (case match_here r s of
        Some (rest, g) \<Rightarrow>
          if length rest < length s then repl g @ re_sub r repl rest
          else repl g @ (case s of [] \<Rightarrow> [] | c # s' \<Rightarrow> c # re_sub r repl s')
      | None \<Rightarrow> (case s of [] \<Rightarrow> [] | c # s' \<Rightarrow> c # re_sub r repl s'))"
  by pat_completeness auto
termination
  by (relation "measure (\<lambda>(r, repl, s). length s)") auto

subsection \<open>\<^verbatim>\<open>process_metadata\<close>\<close>

text \<open>The character classes of Python's \<^verbatim>\<open>re\<close> on code points below 256.\<close>

definition in_range :: "char \<Rightarrow> char \<Rightarrow> char \<Rightarrow> bool" where
  "in_range lo hi c = ((of_char lo :: nat) \<le> of_char c \<and> (of_char c :: nat) \<le> of_char hi)"

definition is_word :: "char \<Rightarrow> bool" where
  "is_word c =
     (in_range (CHR ''a'') (CHR ''z'') c \<or> in_range (CHR ''A'') (CHR ''Z'') c \<or>
      in_range (CHR ''0'') (CHR ''9'') c \<or> c = CHR ''_'' \<or>
      c \<in> set [CHR 0xAA, CHR 0xB2, CHR 0xB3, CHR 0xB5, CHR 0xB9, CHR 0xBA,
                 CHR 0xBC, CHR 0xBD, CHR 0xBE] \<or>
      in_range (CHR 0xC0) (CHR 0xD6) c \<or> in_range (CHR 0xD8) (CHR 0xF6) c \<or>
      in_range (CHR 0xF8) (CHR 0xFF) c)"

definition is_space :: "char \<Rightarrow> bool" where
  "is_space c =
     (in_range (CHR 0x09) (CHR 0x0D) c \<or> in_range (CHR 0x1C) (CHR 0x1F) c \<or>
      c = CHR '' '' \<or> c = CHR 0x85 \<or> c = CHR 0xA0)"

text \<open>\<^verbatim>\<open>[a-zA-Z0-9:]\<close>\<close>

definition label_char :: "char \<Rightarrow> bool" where
  "label_char c =
     (in_range (CHR ''a'') (CHR ''z'') c \<or> in_range (CHR ''A'') (CHR ''Z'') c \<or>
      in_range (CHR ''0'') (CHR ''9'') c \<or> c = CHR '':'')"

text \<open>\<^verbatim>\<open>[\w\(\):\. ]\<close>\<close>

definition caption_char :: "char \<Rightarrow> bool" where
  "caption_char c =
     (is_word c \<or> c = CHR ''('' \<or> c = CHR '')'' \<or> c = CHR '':'' \<or> c = CHR ''.'' \<or>
      c = CHR '' '')"

text \<open>\<^verbatim>\<open>[\s\n]\<close>\<close>

definition gap_char :: "char \<Rightarrow> bool" where
  "gap_char c = (is_space c \<or> c = CHR ''\<newline>'')"

text \<open>\<^verbatim>\<open>[\s\S]\<close>\<close>

definition any_char :: "char \<Rightarrow> bool" where
  "any_char c = (is_space c \<or> \<not> is_space c)"

text \<open>
  The pattern, after Python has read the string literal:
  \<^verbatim>\<open>\\codeMetadata\[([a-zA-Z0-9:]+)\]{([\w\(\):\. ]+)}[\s\n]+(\\begin{Shaded}[\s\S]*?\\end{Shaded})\<close>
\<close>

definition METADATA_REGEX :: regex where
  "METADATA_REGEX =
     Then (Literal (BSL # ''codeMetadata[''))
    (Then (Capture 1 (OneOrMore label_char))
    (Then (Literal '']{'')
    (Then (Capture 2 (OneOrMore caption_char))
    (Then (Literal ''}'')
    (Then (OneOrMore gap_char)
          (Capture 3
            (Then (Literal (BSL # ''begin{Shaded}''))
            (Then (ZeroOrMoreLazy any_char)
                  (Literal (BSL # ''end{Shaded}''))))))))))"

text \<open>\<^verbatim>\<open>'%s' % v\<close> for a group: a group that took no part in the match is
  \<^verbatim>\<open>None\<close>.\<close>

definition percent_s :: "string option \<Rightarrow> string" where
  "percent_s v = (case v of None \<Rightarrow> ''None'' | Some x \<Rightarrow> x)"

text \<open>\<^verbatim>\<open>REPLACEMENT % (a, b, c)\<close>; the template starts with a line break and every
  line of it is indented by four spaces.\<close>

definition REPLACEMENT :: "string option \<Rightarrow> string option \<Rightarrow> string option \<Rightarrow> string" where
  "REPLACEMENT a b c =
     ''\<newline>    '' @ BSL # ''begin{listing}\<newline>    '' @
     percent_s a @ BSL # ''label{'' @ percent_s b @ ''}\<newline>    '' @
     BSL # ''caption{'' @ percent_s c @ ''}\<newline>    '' @
     BSL # ''end{listing}\<newline>    ''"

text \<open>The text that \<^verbatim>\<open>process_metadata\<close> computes from the text it has read.\<close>

definition new_content :: "string \<Rightarrow> string" where
  "new_content file_content =
     re_sub METADATA_REGEX (\<lambda>m. REPLACEMENT (m 3) (m 1) (m 2)) file_content"

definition process_metadata :: "string \<Rightarrow> unit io" where
  "process_metadata fname s =
     (case files s fname of
        None \<Rightarrow> (Inl (OSError fname), s)
      | Some file_content \<Rightarrow>
          (Inr (), s\<lparr>files := (files s)(fname \<mapsto> new_content file_content)\<rparr>))"

subsection \<open>\<^verbatim>\<open>convert_to_tex\<close>\<close>

text \<open>The name of the file pandoc writes. \<^verbatim>\<open>if FLAGS.part_output:\<close> is false for
  \<^verbatim>\<open>None\<close> and for the empty string.\<close>

definition tex_filename :: "flags \<Rightarrow> string \<Rightarrow> string" where
  "tex_filename fl fname =
     (case part_output fl of
        None \<Rightarrow> fname @ ''.tex''
      | Some d \<Rightarrow> if d \<noteq> [] then d @ basename fname @ ''.tex'' else fname @ ''.tex'')"

text \<open>The list \<^verbatim>\<open>pandoc_args\<close>, built by one \<^verbatim>\<open>+=\<close> after the other.\<close>

definition pandoc_args :: "string \<Rightarrow> flags \<Rightarrow> string list" where
  "pandoc_args root fl =
     (let a0 = [] @ [''--verbose''];
          a1 = (if standalone fl then a0 @ [''--standalone''] else a0);
          a2 = (if bibtex fl
                then (a1 @ [''--biblatex'']) @
                     [''--csl'', join_path (THIRD_PARTY_DIRECTORY root) [''ieee.csl'']]
                else a1);
          a3 = (if thesis fl
                then (let b = a2 @ [''-V'', ''geometry:margin=20mm'',
                                    ''-V'', ''mainfont:Times New Roman'',
                                    ''-V'', ''papersize:a4'',
                                    ''-V'', ''classoption:12pt'']
                      in if template fl = None
                         then b @ [''--template'', join_path root [''thesis-template.tex'']]
                         else b)
                else a2);
          a4 = (case template fl of None \<Rightarrow> a3 | Some t \<Rightarrow> a3 @ [''--template'', t]);
          a5 = (case metadata fl of None \<Rightarrow> a4 | Some m \<Rightarrow> a4 @ [''--metadata-file'', m]);
          a6 = (if highlight fl
                then a5 @ [''--syntax-definition'',
                           join_path (THIRD_PARTY_DIRECTORY root) [''typescript.xml''],
                           ''--highlight=tango'']
                else a5);
          a7 = (if pretty fl
                then a6 @ [''-V'', ''geometry:margin=2cm'',
                           ''-V'', ''mainfont:Roboto'',
                           ''-V'', ''papersize:a4'']
                else a6)
      in a7)"

definition convert_to_tex :: "programs \<Rightarrow> string \<Rightarrow> string \<Rightarrow> unit io" where
  "convert_to_tex env root fname s =
     (let tex = tex_filename (FLAGS s) fname;
          md_filename = fname @ ''.md''
      in and_then (call_pandoc env md_filename tex ''latex'' (pandoc_args root (FLAGS s)))
           (\<lambda>_ s'. if highlight (FLAGS s') then process_metadata tex s' else return () s') s)"

subsection \<open>\<^verbatim>\<open>build_pdf\<close>\<close>

definition latex_args :: "flags \<Rightarrow> string list" where
  "latex_args fl =
     (case output_dir fl of None \<Rightarrow> [] | Some d \<Rightarrow> [] @ [''-output-directory='' @ d]) @
     [''-interaction=nonstopmode'']"

definition build_pdf :: "programs \<Rightarrow> string \<Rightarrow> unit io" where
  "build_pdf env fname s =
     (let fl = FLAGS s;
          tex = fname @ ''.tex'';
          typeset = shell_command env ([LATEX] @ latex_args fl @ [tex]) True False False None
      in and_then typeset (\<lambda>_.
         and_then
           (if bibtex fl then
              and_then
                (if biblatex fl then shell_command env [BIBTEX, fname] True False False None
                 else shell_command env [BIBER, fname] True False False None) (\<lambda>_.
              typeset)
            else return None) (\<lambda>_.
         and_then typeset (\<lambda>_. return ()))) s)"

subsection \<open>\<^verbatim>\<open>main\<close>\<close>

text \<open>The assignments under \<^verbatim>\<open>if FLAGS.simple:\<close>, in their order.\<close>

definition simple_settings :: "flags \<Rightarrow> flags" where
  "simple_settings fl =
     (let f1 = fl\<lparr>output_dir := Some (dirname (filename fl))\<rparr>;
          f2 = f1\<lparr>standalone := True\<rparr>;
          f3 = (if \<not> thesis f2 then f2\<lparr>pretty := True\<rparr> else f2)
      in f3)"

text \<open>\<^verbatim>\<open>for part in FLAGS.part: convert_to_tex(part)\<close>\<close>

fun convert_parts :: "programs \<Rightarrow> string \<Rightarrow> string list \<Rightarrow> unit io" where
  "convert_parts env root [] = return ()"
| "convert_parts env root (p # ps) =
     and_then (convert_to_tex env root p) (\<lambda>_. convert_parts env root ps)"

definition main :: "programs \<Rightarrow> string \<Rightarrow> unit io" where
  "main env root s0 =
     (let s1 = (if simple (FLAGS s0) = Some True
                then s0\<lparr>FLAGS := simple_settings (FLAGS s0)\<rparr> else s0);
          fl = FLAGS s1
      in and_then
           (case part fl of
              Some (p # ps) \<Rightarrow> convert_parts env root (p # ps)
            | _ \<Rightarrow> if pandoc fl then convert_to_tex env root (filename fl) else return ())
           (\<lambda>_. build_pdf env (filename fl)) s1)"


subsection \<open>Conditions on the external programs, and example inputs\<close>

text \<open>Every command that is started exits with return code zero.\<close>

definition always_exit_zero :: "programs \<Rightarrow> bool" where
  "always_exit_zero env = (\<forall>sh cmd s. \<exists>out. fst (env sh cmd s) = Exited 0 out)"

text \<open>The directories a call with a \<^verbatim>\<open>cwd\<close> argument changes to and back to exist.\<close>

definition dirs_exist :: "string option \<Rightarrow> state \<Rightarrow> bool" where
  "dirs_exist cwd_arg s =
     (case cwd_arg of None \<Rightarrow> True | Some d \<Rightarrow> is_dir s d \<and> is_dir s (cwd s))"

text \<open>The state in which the command is started.\<close>

definition entered :: "string option \<Rightarrow> state \<Rightarrow> state" where
  "entered cwd_arg s = (case cwd_arg of None \<Rightarrow> s | Some d \<Rightarrow> s\<lparr>cwd := d\<rparr>)"

text \<open>The flag values when only \<^verbatim>\<open>--filename=main\<close> is given.\<close>

definition default_flags :: flags where
  "default_flags =
     \<lparr>pandoc = True, filename = ''main'', metadata = None, template = None, part = None,
      part_output = None, simple = None, standalone = False, bibtex = False,
      biblatex = False, highlight = False, output_dir = None, pretty = False,
      thesis = False, markdown_tex = True\<rparr>"

definition initial_state :: "flags \<Rightarrow> state" where
  "initial_state fl =
     \<lparr>FLAGS = fl, cwd = ''/home/user'', is_dir = (\<lambda>d. True), files = Map.empty,
      invocations = []\<rparr>"

text \<open>Programs that all exit with 0, respectively 1, and touch no file.\<close>

definition all_succeed :: programs where
  "all_succeed sh cmd s = (Exited 0 [], files s)"

definition all_fail :: programs where
  "all_fail sh cmd s = (Exited 1 [], files s)"

text \<open>The command line \<^verbatim>\<open>convert_to_tex\<close> hands to \<^verbatim>\<open>call_pandoc\<close>.\<close>

definition convert_command :: "string \<Rightarrow> flags \<Rightarrow> string \<Rightarrow> string list" where
  "convert_command root fl fname =
     pandoc_command fl (fname @ ''.md'') (tex_filename fl fname) ''latex'' (pandoc_args root fl)"

text \<open>The invocations made between two states of one run.\<close>

definition invoked_since :: "state \<Rightarrow> state \<Rightarrow> event list" where
  "invoked_since s s' = drop (length (invocations s)) (invocations s')"

text \<open>A command whose last three arguments are \<^verbatim>\<open>-o OUT IN\<close> leaves the file
  \<^verbatim>\<open>OUT\<close> in place.\<close>

definition writes_output_file :: "programs \<Rightarrow> bool" where
  "writes_output_file env =
     (\<forall>sh xs outf inp s. snd (env sh (xs @ [''-o'', outf, inp]) s) outf \<noteq> None)"

text \<open>The command lines of a typeset step in which every command succeeds.\<close>

definition typeset_commands :: "flags \<Rightarrow> string \<Rightarrow> string list list" where
  "typeset_commands fl fname =
     [LATEX # latex_args fl @ [fname @ ''.tex'']] @
     (if bibtex fl
      then [[if biblatex fl then BIBTEX else BIBER, fname],
            LATEX # latex_args fl @ [fname @ ''.tex'']]
      else []) @
     [LATEX # latex_args fl @ [fname @ ''.tex'']]"

text \<open>The flags after the \<^verbatim>\<open>if FLAGS.simple:\<close> block of \<^verbatim>\<open>main\<close>.\<close>

definition derived_flags :: "flags \<Rightarrow> flags" where
  "derived_flags fl = (if simple fl = Some True then simple_settings fl else fl)"

text \<open>Programs that exit with 0 and create the file named behind \<^verbatim>\<open>-o\<close>.\<close>

definition pandoc_like :: programs where
  "pandoc_like sh cmd s =
     (Exited 0 [],
      if 3 \<le> length cmd \<and> cmd ! (length cmd - 3) = ''-o''
      then (files s)(cmd ! (length cmd - 2) \<mapsto> [])
      else files s)"

text \<open>The literal text with which the pattern starts.\<close>

definition annotation_start :: string where
  "annotation_start = BSL # ''codeMetadata[''"



section \<open>Properties\<close>

lemma shell_command_default:
  "shell_command env cmd True False False None s =
     (case fst (env False cmd s) of
        Exited rc out \<Rightarrow> if rc = 0 then Inr None else Inl (CalledProcessError rc cmd)
      | NotStarted \<Rightarrow> Inl (OSError (concat (take 1 cmd))),
      s\<lparr>files := snd (env False cmd s),
        invocations := invocations s @ [Invoke False cmd (fst (env False cmd s))]\<rparr>)"
  by (simp add: shell_command_def and_then_def getcwd_def return_def check_call_def
      run_process_def split: prod.splits outcome.splits)

lemma shell_command_default_ok:
  assumes "always_exit_zero env"
  shows "shell_command env cmd True False False None s =
     (Inr None,
      s\<lparr>files := snd (env False cmd s),
        invocations := invocations s @ [Invoke False cmd (fst (env False cmd s))]\<rparr>)"
proof -
  from assms obtain out where "fst (env False cmd s) = Exited 0 out"
    unfolding always_exit_zero_def by blast
  then show ?thesis by (simp add: shell_command_default)
qed

lemma always_exit_zero_all_succeed: "always_exit_zero all_succeed"
  by (simp add: always_exit_zero_def all_succeed_def)

subsection \<open>The flags are changed only by the \<^verbatim>\<open>simple\<close> derivation\<close>

lemma simple_settings_eq:
  "simple_settings fl =
     fl\<lparr>output_dir := Some (dirname (filename fl)), standalone := True,
        pretty := (if thesis fl then pretty fl else True)\<rparr>"
  by (simp add: simple_settings_def Let_def)

lemma shell_command_FLAGS: "FLAGS (snd (shell_command env cmd True False False None s)) = FLAGS s"
  by (simp add: shell_command_default)

lemma process_metadata_FLAGS: "FLAGS (snd (process_metadata f s)) = FLAGS s"
  by (simp add: process_metadata_def split: option.splits)

lemma and_then_snd:
  assumes "\<And>s. P (snd (m s)) = P s" and "\<And>x s. P (snd (f x s)) = P s"
  shows "P (snd (and_then m f s)) = P s"
proof (cases "m s")
  case (Pair r s')
  have "P s' = P s" using assms(1)[of s] Pair by simp
  then show ?thesis using Pair assms(2) by (cases r) (simp_all add: and_then_def)
qed

lemma call_pandoc_FLAGS: "FLAGS (snd (call_pandoc env f out ty args s)) = FLAGS s"
  unfolding call_pandoc_def Let_def
  by (rule and_then_snd) (simp_all add: shell_command_FLAGS return_def)

lemma convert_to_tex_FLAGS: "FLAGS (snd (convert_to_tex env root f s)) = FLAGS s"
  unfolding convert_to_tex_def Let_def
  by (rule and_then_snd) (simp_all add: call_pandoc_FLAGS process_metadata_FLAGS return_def)

lemma convert_parts_FLAGS: "FLAGS (snd (convert_parts env root ps s)) = FLAGS s"
proof (induction ps arbitrary: s)
  case Nil
  show ?case by (simp add: return_def)
next
  case (Cons p ps)
  show ?case
    unfolding convert_parts.simps
    by (rule and_then_snd) (simp_all add: convert_to_tex_FLAGS Cons.IH)
qed

lemma build_pdf_FLAGS: "FLAGS (snd (build_pdf env f s)) = FLAGS s"
  unfolding build_pdf_def Let_def
  by (auto intro!: and_then_snd simp: shell_command_FLAGS return_def)

lemma main_FLAGS:
  "FLAGS (snd (main env root s)) =
     (if simple (FLAGS s) = Some True then simple_settings (FLAGS s) else FLAGS s)"
proof -
  have "FLAGS (snd (main env root s)) =
      FLAGS (if simple (FLAGS s) = Some True
             then s\<lparr>FLAGS := simple_settings (FLAGS s)\<rparr> else s)"
    unfolding main_def Let_def
    by (rule and_then_snd)
       (simp_all add: convert_parts_FLAGS convert_to_tex_FLAGS build_pdf_FLAGS return_def
         del: convert_parts.simps split: option.splits list.splits)
  then show ?thesis by simp
qed


text \<open>
  Claim C5. When \<^verbatim>\<open>simple\<close> is set, the derived flags have
  \<^verbatim>\<open>standalone\<close> true, \<^verbatim>\<open>output_dir\<close> the directory of the file name, and
  \<^verbatim>\<open>pretty\<close> true unless \<^verbatim>\<open>thesis\<close> is set, in which case \<^verbatim>\<open>pretty\<close> keeps
  its value; every other flag is as it was. These are the flags \<^verbatim>\<open>main\<close> ends with,
  whatever the external programs do.
\<close>

theorem simple_derivation:
  assumes "simple (FLAGS s) = Some True"
  shows "simple_settings (FLAGS s) =
           (FLAGS s)\<lparr>output_dir := Some (dirname (filename (FLAGS s))),
                     standalone := True,
                     pretty := (if thesis (FLAGS s) then pretty (FLAGS s) else True)\<rparr>
         \<and> FLAGS (snd (main env root s)) = simple_settings (FLAGS s)"
  using assms by (simp add: main_FLAGS simple_settings_eq)

theorem simple_derivation_witness:
  "simple (FLAGS (initial_state (default_flags\<lparr>simple := Some True, filename := ''doc/report''\<rparr>)))
     = Some True
   \<and> FLAGS (snd (main all_succeed ''/opt/build_latex''
        (initial_state (default_flags\<lparr>simple := Some True, filename := ''doc/report''\<rparr>)))) =
     \<lparr>pandoc = True, filename = ''doc/report'', metadata = None, template = None, part = None,
      part_output = None, simple = Some True, standalone = True, bibtex = False,
      biblatex = False, highlight = False, output_dir = Some ''doc'', pretty = True,
      thesis = False, markdown_tex = True\<rparr>"
  using simple_derivation [of "initial_state (default_flags\<lparr>simple := Some True, filename := ''doc/report''\<rparr>)"
      all_succeed "''/opt/build_latex''"]
  by (simp add: initial_state_def default_flags_def dirname_def)

subsection \<open>The arguments for pandoc\<close>

lemma if_append_distrib: "(if c then a @ x else a) = a @ (if c then x else [])"
  by simp

lemma if_append2_distrib: "(if c then (a @ x) @ y else a) = a @ (if c then x @ y else [])"
  by simp

lemma case_option_append_distrib:
  "(case v of None \<Rightarrow> a | Some t \<Rightarrow> a @ f t) = a @ (case v of None \<Rightarrow> [] | Some t \<Rightarrow> f t)"
  by (cases v) simp_all

text \<open>
  Claim C6. The argument list for pandoc is a function of the flags (and of the directory
  of the script) alone, and its tokens come in this order: the verbosity flag; the
  standalone flag; the bibliography flag with the citation style; the thesis typography
  block, with the bundled thesis template only when no template is given; the template;
  the metadata file; the syntax definition with the highlighting style; the pretty
  typography block. Each group is present exactly when its flag is set.
\<close>

theorem pandoc_args_order:
  "pandoc_args root fl =
     [''--verbose''] @
     (if standalone fl then [''--standalone''] else []) @
     (if bibtex fl
      then [''--biblatex'', ''--csl'', join_path (THIRD_PARTY_DIRECTORY root) [''ieee.csl'']]
      else []) @
     (if thesis fl
      then [''-V'', ''geometry:margin=20mm'', ''-V'', ''mainfont:Times New Roman'',
            ''-V'', ''papersize:a4'', ''-V'', ''classoption:12pt''] @
           (if template fl = None
            then [''--template'', join_path root [''thesis-template.tex'']] else [])
      else []) @
     (case template fl of None \<Rightarrow> [] | Some t \<Rightarrow> [''--template'', t]) @
     (case metadata fl of None \<Rightarrow> [] | Some m \<Rightarrow> [''--metadata-file'', m]) @
     (if highlight fl
      then [''--syntax-definition'',
            join_path (THIRD_PARTY_DIRECTORY root) [''typescript.xml''],
            ''--highlight=tango'']
      else []) @
     (if pretty fl
      then [''-V'', ''geometry:margin=2cm'', ''-V'', ''mainfont:Roboto'', ''-V'', ''papersize:a4'']
      else [])"
  unfolding pandoc_args_def Let_def if_append_distrib if_append2_distrib
    case_option_append_distrib
  by (simp del: join_path.simps split del: if_split cong: if_cong option.case_cong)

theorem pandoc_args_order_witness:
  "pandoc_args ''/opt/bl''
     (default_flags\<lparr>standalone := True, bibtex := True, thesis := True,
        metadata := Some ''meta.yaml'', highlight := True, pretty := True\<rparr>) =
   [''--verbose'', ''--standalone'', ''--biblatex'', ''--csl'', ''/opt/bl/third_party/ieee.csl'',
    ''-V'', ''geometry:margin=20mm'', ''-V'', ''mainfont:Times New Roman'',
    ''-V'', ''papersize:a4'', ''-V'', ''classoption:12pt'',
    ''--template'', ''/opt/bl/thesis-template.tex'',
    ''--metadata-file'', ''meta.yaml'',
    ''--syntax-definition'', ''/opt/bl/third_party/typescript.xml'', ''--highlight=tango'',
    ''-V'', ''geometry:margin=2cm'', ''-V'', ''mainfont:Roboto'', ''-V'', ''papersize:a4'']"
  using pandoc_args_order [of "''/opt/bl''"
      "default_flags\<lparr>standalone := True, bibtex := True, thesis := True,
        metadata := Some ''meta.yaml'', highlight := True, pretty := True\<rparr>"]
  by (simp add: default_flags_def THIRD_PARTY_DIRECTORY_def)

subsection \<open>The working directory after a failed command\<close>

text \<open>
  Claim C2. The claim says the working directory is restored after every call with a
  \<^verbatim>\<open>cwd\<close> argument, also when the command fails. The program restores it only
  behind the call of the command: started in \<^verbatim>\<open>/home/user\<close> with
  \<^verbatim>\<open>cwd="/tmp"\<close> and a command that exits with 1, \<^verbatim>\<open>shell_command\<close> raises
  \<^verbatim>\<open>CalledProcessError\<close> and the process is left in \<^verbatim>\<open>/tmp\<close>.
\<close>

theorem shell_command_failure_leaves_cwd:
  "shell_command all_fail [''false''] True False False (Some ''/tmp'')
     (initial_state default_flags) =
   (Inl (CalledProcessError 1 [''false'']),
    (initial_state default_flags)
      \<lparr>cwd := ''/tmp'', invocations := [Invoke False [''false''] (Exited 1 [])]\<rparr>)"
  by (simp add: shell_command_def and_then_def getcwd_def return_def check_call_def
      run_process_def chdir_def initial_state_def all_fail_def)

subsection \<open>The passes of \<^verbatim>\<open>build_pdf\<close>\<close>

text \<open>
  Claim C1, as amended. When every command exits with zero: without a bibliography the
  typesetting engine is invoked exactly twice; with a bibliography and biber the
  invocations are engine, biber, engine, engine, in that order (three of the engine, one of
  biber).
\<close>

theorem build_pdf_passes:
  assumes "always_exit_zero env"
  shows "fst (build_pdf env fname s) = Inr () \<and>
     (\<not> bibtex (FLAGS s) \<longrightarrow>
        map argv (drop (length (invocations s)) (invocations (snd (build_pdf env fname s)))) =
          [LATEX # latex_args (FLAGS s) @ [fname @ ''.tex''],
           LATEX # latex_args (FLAGS s) @ [fname @ ''.tex'']]) \<and>
     (bibtex (FLAGS s) \<and> \<not> biblatex (FLAGS s) \<longrightarrow>
        map argv (drop (length (invocations s)) (invocations (snd (build_pdf env fname s)))) =
          [LATEX # latex_args (FLAGS s) @ [fname @ ''.tex''],
           [BIBER, fname],
           LATEX # latex_args (FLAGS s) @ [fname @ ''.tex''],
           LATEX # latex_args (FLAGS s) @ [fname @ ''.tex'']])"
  by (simp add: build_pdf_def Let_def and_then_def shell_command_default_ok [OF assms]
      return_def)

theorem build_pdf_passes_witness:
  "always_exit_zero all_succeed \<and>
   map argv (invocations (snd (build_pdf all_succeed ''main''
     (initial_state (default_flags\<lparr>bibtex := True, output_dir := Some ''out''\<rparr>))))) =
     [[''xelatex'', ''-output-directory=out'', ''-interaction=nonstopmode'', ''main.tex''],
      [''biber'', ''main''],
      [''xelatex'', ''-output-directory=out'', ''-interaction=nonstopmode'', ''main.tex''],
      [''xelatex'', ''-output-directory=out'', ''-interaction=nonstopmode'', ''main.tex'']]"
  using build_pdf_passes [OF always_exit_zero_all_succeed, of "''main''"
      "initial_state (default_flags\<lparr>bibtex := True, output_dir := Some ''out''\<rparr>)"]
  by (simp add: always_exit_zero_all_succeed initial_state_def default_flags_def
      latex_args_def LATEX_def BIBER_def)

text \<open>
  Claim C1 as stated (one invocation of the engine without a bibliography) fails: with the
  default flags and programs that all succeed the engine is invoked twice.
\<close>

theorem typeset_once_counterexample:
  "map argv (invocations (snd (build_pdf all_succeed ''main'' (initial_state default_flags)))) =
     [[''xelatex'', ''-interaction=nonstopmode'', ''main.tex''],
      [''xelatex'', ''-interaction=nonstopmode'', ''main.tex'']] \<and>
   length (filter (\<lambda>e. take 1 (argv e) = [LATEX])
     (invocations (snd (build_pdf all_succeed ''main'' (initial_state default_flags))))) \<noteq> 1"
  by (simp add: build_pdf_def Let_def and_then_def shell_command_default return_def
      all_succeed_def initial_state_def default_flags_def latex_args_def LATEX_def)

subsection \<open>The conversion step and the file it writes\<close>

lemma call_pandoc_run:
  "call_pandoc env f out ty args s =
     (case fst (env False (pandoc_command (FLAGS s) f out ty args) s) of
        Exited rc x \<Rightarrow>
          if rc = 0 then Inr ()
          else Inl (CalledProcessError rc (pandoc_command (FLAGS s) f out ty args))
      | NotStarted \<Rightarrow> Inl (OSError (concat (take 1 (pandoc_command (FLAGS s) f out ty args)))),
      s\<lparr>files := snd (env False (pandoc_command (FLAGS s) f out ty args) s),
        invocations := invocations s @
          [Invoke False (pandoc_command (FLAGS s) f out ty args)
             (fst (env False (pandoc_command (FLAGS s) f out ty args) s))]\<rparr>)"
  by (simp add: call_pandoc_def and_then_def shell_command_default return_def
      split: outcome.splits)

lemma process_metadata_invocations:
  "invocations (snd (process_metadata f s)) = invocations s"
  by (simp add: process_metadata_def split: option.splits)

lemma convert_to_tex_invocations:
  "invocations (snd (convert_to_tex env root t s)) =
     invocations s @
       [Invoke False (convert_command root (FLAGS s) t)
          (fst (env False (convert_command root (FLAGS s) t) s))]"
  by (simp add: convert_to_tex_def Let_def and_then_def call_pandoc_run convert_command_def
      process_metadata_invocations return_def split: outcome.splits)

lemma convert_to_tex_files:
  "files (snd (convert_to_tex env root t s)) =
     (let fs = snd (env False (convert_command root (FLAGS s) t) s) in
      if highlight (FLAGS s) \<and> (\<exists>out. fst (env False (convert_command root (FLAGS s) t) s) = Exited 0 out)
      then (case fs (tex_filename (FLAGS s) t) of
              None \<Rightarrow> fs
            | Some c \<Rightarrow> fs(tex_filename (FLAGS s) t \<mapsto> new_content c))
      else fs)"
  by (simp add: convert_to_tex_def Let_def and_then_def call_pandoc_run convert_command_def
      process_metadata_def return_def split: outcome.splits option.splits)

text \<open>
  Claim C3, as amended. For every target the conversion step passes to pandoc, as the
  output file, and rewrites when highlighting is on, the file whose name is: the
  part-output value followed directly by the base name of the target and \<^verbatim>\<open>.tex\<close>
  when a non-empty part-output value is configured (no separator is put in between), and
  the target followed by \<^verbatim>\<open>.tex\<close> otherwise. The step writes no other file itself.
\<close>

theorem convert_to_tex_output_path:
  "tex_filename (FLAGS s) t =
     (case part_output (FLAGS s) of
        None \<Rightarrow> t @ ''.tex''
      | Some d \<Rightarrow> if d = [] then t @ ''.tex'' else d @ basename t @ ''.tex'') \<and>
   map argv (drop (length (invocations s)) (invocations (snd (convert_to_tex env root t s)))) =
     [PANDOC # pandoc_args root (FLAGS s) @
      [''-f'', if markdown_tex (FLAGS s) then ''markdown'' else ''markdown-raw_tex'',
       ''-t'', ''latex'', ''-o'', tex_filename (FLAGS s) t, t @ ''.md'']] \<and>
   files (snd (convert_to_tex env root t s)) =
     (let fs = snd (env False (convert_command root (FLAGS s) t) s) in
      if highlight (FLAGS s) \<and>
         (\<exists>out. fst (env False (convert_command root (FLAGS s) t) s) = Exited 0 out)
      then (case fs (tex_filename (FLAGS s) t) of
              None \<Rightarrow> fs
            | Some c \<Rightarrow> fs(tex_filename (FLAGS s) t \<mapsto> new_content c))
      else fs)"
proof (intro conjI)
  show "tex_filename (FLAGS s) t =
     (case part_output (FLAGS s) of
        None \<Rightarrow> t @ ''.tex''
      | Some d \<Rightarrow> if d = [] then t @ ''.tex'' else d @ basename t @ ''.tex'')"
    by (simp add: tex_filename_def split: option.splits)
  show "map argv (drop (length (invocations s)) (invocations (snd (convert_to_tex env root t s)))) =
     [PANDOC # pandoc_args root (FLAGS s) @
      [''-f'', if markdown_tex (FLAGS s) then ''markdown'' else ''markdown-raw_tex'',
       ''-t'', ''latex'', ''-o'', tex_filename (FLAGS s) t, t @ ''.md'']]"
    by (simp add: convert_to_tex_invocations convert_command_def pandoc_command_def)
  show "files (snd (convert_to_tex env root t s)) =
     (let fs = snd (env False (convert_command root (FLAGS s) t) s) in
      if highlight (FLAGS s) \<and>
         (\<exists>out. fst (env False (convert_command root (FLAGS s) t) s) = Exited 0 out)
      then (case fs (tex_filename (FLAGS s) t) of
              None \<Rightarrow> fs
            | Some c \<Rightarrow> fs(tex_filename (FLAGS s) t \<mapsto> new_content c))
      else fs)"
    by (rule convert_to_tex_files)
qed

theorem convert_to_tex_output_path_witness:
  "map argv (invocations (snd (convert_to_tex all_succeed ''/opt/bl'' ''chapters/intro''
     (initial_state (default_flags\<lparr>part_output := Some ''build/''\<rparr>))))) =
     [[''pandoc'', ''--verbose'', ''-f'', ''markdown'', ''-t'', ''latex'',
       ''-o'', ''build/intro.tex'', ''chapters/intro.md'']] \<and>
   map argv (invocations (snd (convert_to_tex all_succeed ''/opt/bl'' ''chapters/intro''
     (initial_state default_flags)))) =
     [[''pandoc'', ''--verbose'', ''-f'', ''markdown'', ''-t'', ''latex'',
       ''-o'', ''chapters/intro.tex'', ''chapters/intro.md'']]"
  using
    convert_to_tex_output_path [of "initial_state (default_flags\<lparr>part_output := Some ''build/''\<rparr>)"
      "''chapters/intro''" all_succeed "''/opt/bl''"]
    convert_to_tex_output_path [of "initial_state default_flags"
      "''chapters/intro''" all_succeed "''/opt/bl''"]
  by (simp add: initial_state_def default_flags_def pandoc_args_def basename_def PANDOC_def)

text \<open>
  Claim C3 as stated (the directory joined to the base name with a path separator) fails:
  with part-output \<^verbatim>\<open>build\<close> and target \<^verbatim>\<open>chapters/intro\<close> the file is
  \<^verbatim>\<open>buildintro.tex\<close>, not \<^verbatim>\<open>build/intro.tex\<close>.
\<close>

theorem part_output_separator_counterexample:
  "map argv (invocations (snd (convert_to_tex all_succeed ''/opt/bl'' ''chapters/intro''
     (initial_state (default_flags\<lparr>part_output := Some ''build''\<rparr>))))) =
     [[''pandoc'', ''--verbose'', ''-f'', ''markdown'', ''-t'', ''latex'',
       ''-o'', ''buildintro.tex'', ''chapters/intro.md'']] \<and>
   tex_filename (default_flags\<lparr>part_output := Some ''build''\<rparr>) ''chapters/intro'' \<noteq>
     ''build'' @ ''/'' @ basename ''chapters/intro'' @ ''.tex''"
  by (simp add: convert_to_tex_invocations convert_command_def pandoc_command_def
      tex_filename_def initial_state_def default_flags_def pandoc_args_def basename_def
      PANDOC_def)

subsection \<open>The shell option of \<^verbatim>\<open>shell_command\<close>\<close>

lemma shell_command_shell:
  assumes "dirs_exist d s"
  shows "shell_command env cmd True False True d s =
     (case fst (env True cmd (entered d s)) of
        Exited rc out \<Rightarrow> Inr None
      | NotStarted \<Rightarrow> Inl (OSError ''sh''),
      (case fst (env True cmd (entered d s)) of
        Exited rc out \<Rightarrow> s | NotStarted \<Rightarrow> entered d s)
      \<lparr>files := snd (env True cmd (entered d s)),
        invocations := invocations s @ [Invoke True cmd (fst (env True cmd (entered d s)))]\<rparr>)"
  using assms
  by (cases d)
     (simp_all add: shell_command_def and_then_def getcwd_def return_def Popen_shell_wait_def
       run_process_def chdir_def dirs_exist_def entered_def split: prod.splits outcome.splits)

lemma shell_command_no_throw:
  assumes "dirs_exist d s"
  shows "shell_command env cmd False capture shell d s =
     (case fst (env False cmd (entered d s)) of
        Exited rc out \<Rightarrow> Inr None
      | NotStarted \<Rightarrow> Inl (OSError (concat (take 1 cmd))),
      (case fst (env False cmd (entered d s)) of
        Exited rc out \<Rightarrow> s | NotStarted \<Rightarrow> entered d s)
      \<lparr>files := snd (env False cmd (entered d s)),
        invocations := invocations s @ [Invoke False cmd (fst (env False cmd (entered d s)))]\<rparr>)"
  using assms
  by (cases d)
     (simp_all add: shell_command_def and_then_def getcwd_def return_def call_def
       run_process_def chdir_def dirs_exist_def entered_def split: prod.splits outcome.splits)

lemma shell_command_never_CalledProcessError:
  "fst (shell_command env cmd throw False True d s) \<noteq> Inl (CalledProcessError rc c)"
  by (cases d; cases throw)
     (auto simp add: shell_command_def and_then_def getcwd_def return_def call_def
       Popen_shell_wait_def run_process_def chdir_def split: prod.splits outcome.splits)

lemma shell_command_check:
  assumes "dirs_exist d s" and "fst (env False cmd (entered d s)) = Exited rc out" and "rc \<noteq> 0"
  shows "fst (shell_command env cmd True capture False d s) = Inl (CalledProcessError rc cmd)"
  using assms
  by (cases d; cases capture)
     (auto simp add: shell_command_def and_then_def getcwd_def return_def check_call_def
       check_output_def run_process_def chdir_def dirs_exist_def entered_def
       split: prod.splits)

text \<open>
  Claim C8, as amended. With \<^verbatim>\<open>shell=True\<close> and no output capture,
  \<^verbatim>\<open>shell_command\<close> never raises \<^verbatim>\<open>CalledProcessError\<close>, whatever
  \<^verbatim>\<open>throw\<close> is: when the directories exist and the command exits, with any return
  code, the call returns normally. With \<^verbatim>\<open>throw=True\<close> the command is run through the
  shell and waited for; with \<^verbatim>\<open>throw=False\<close> the shell option is not looked at and
  the command is run directly. With \<^verbatim>\<open>shell=False\<close> and \<^verbatim>\<open>throw=True\<close> a return
  code other than zero raises \<^verbatim>\<open>CalledProcessError\<close> with that code and command.
\<close>

theorem shell_command_shell_quirk:
  "(\<forall>rc c. fst (shell_command env cmd throw False True d s) \<noteq> Inl (CalledProcessError rc c)) \<and>
   (dirs_exist d s \<and> throw \<longrightarrow>
      drop (length (invocations s))
        (invocations (snd (shell_command env cmd throw False True d s))) =
        [Invoke True cmd (fst (env True cmd (entered d s)))] \<and>
      (\<forall>rc out. fst (env True cmd (entered d s)) = Exited rc out \<longrightarrow>
         fst (shell_command env cmd throw False True d s) = Inr None)) \<and>
   (dirs_exist d s \<and> \<not> throw \<longrightarrow>
      drop (length (invocations s))
        (invocations (snd (shell_command env cmd throw False True d s))) =
        [Invoke False cmd (fst (env False cmd (entered d s)))] \<and>
      (\<forall>rc out. fst (env False cmd (entered d s)) = Exited rc out \<longrightarrow>
         fst (shell_command env cmd throw False True d s) = Inr None)) \<and>
   (\<forall>rc out capture. dirs_exist d s \<and> fst (env False cmd (entered d s)) = Exited rc out \<and> rc \<noteq> 0 \<longrightarrow>
      fst (shell_command env cmd True capture False d s) = Inl (CalledProcessError rc cmd))"
proof (intro conjI allI impI)
  fix rc c
  show "fst (shell_command env cmd throw False True d s) \<noteq> Inl (CalledProcessError rc c)"
    by (rule shell_command_never_CalledProcessError)
next
  assume a: "dirs_exist d s \<and> throw"
  then show "drop (length (invocations s))
        (invocations (snd (shell_command env cmd throw False True d s))) =
        [Invoke True cmd (fst (env True cmd (entered d s)))]"
    by (simp add: shell_command_shell split: outcome.splits)
  fix rc out
  assume "fst (env True cmd (entered d s)) = Exited rc out"
  with a show "fst (shell_command env cmd throw False True d s) = Inr None"
    by (simp add: shell_command_shell)
next
  assume a: "dirs_exist d s \<and> \<not> throw"
  then show "drop (length (invocations s))
        (invocations (snd (shell_command env cmd throw False True d s))) =
        [Invoke False cmd (fst (env False cmd (entered d s)))]"
    by (simp add: shell_command_no_throw split: outcome.splits)
  fix rc out
  assume "fst (env False cmd (entered d s)) = Exited rc out"
  with a show "fst (shell_command env cmd throw False True d s) = Inr None"
    by (simp add: shell_command_no_throw)
next
  fix rc out capture
  assume "dirs_exist d s \<and> fst (env False cmd (entered d s)) = Exited rc out \<and> rc \<noteq> 0"
  then show "fst (shell_command env cmd True capture False d s) = Inl (CalledProcessError rc cmd)"
    using shell_command_check by blast
qed


theorem shell_command_shell_quirk_witness:
  "dirs_exist (Some ''/tmp'') (initial_state default_flags) \<and>
   fst (shell_command all_fail [''make''] True False True (Some ''/tmp'')
          (initial_state default_flags)) = Inr None \<and>
   invocations (snd (shell_command all_fail [''make''] True False True (Some ''/tmp'')
          (initial_state default_flags))) = [Invoke True [''make''] (Exited 1 [])] \<and>
   fst (shell_command all_fail [''make''] False False True (Some ''/tmp'')
          (initial_state default_flags)) = Inr None \<and>
   fst (shell_command all_fail [''make''] True False False (Some ''/tmp'')
          (initial_state default_flags)) = Inl (CalledProcessError 1 [''make''])"
  using shell_command_shell_quirk [of all_fail "[''make'']" True "Some ''/tmp''"
      "initial_state default_flags"]
    shell_command_shell_quirk [of all_fail "[''make'']" False "Some ''/tmp''"
      "initial_state default_flags"]
  by (simp add: dirs_exist_def entered_def all_fail_def initial_state_def)

text \<open>
  Claim C8 as stated (the command is shell-wrapped for either value of \<^verbatim>\<open>throw\<close>) fails:
  with \<^verbatim>\<open>throw=False, shell=True\<close> the one invocation made does not go through the
  shell.
\<close>

theorem shell_ignored_without_throw_counterexample:
  "map via_shell (invocations (snd (shell_command all_fail [''make''] False False True None
     (initial_state default_flags)))) = [False]"
  by (simp add: shell_command_def and_then_def getcwd_def return_def call_def
      run_process_def all_fail_def initial_state_def)

subsection \<open>The rewrite of annotated code blocks\<close>

text \<open>
  Claim C7. On the text \<^verbatim>\<open>\codeMetadata[fig:1]{A title}\<close>, a line break, and the
  block \<^verbatim>\<open>\begin{Shaded}\<close> ... \<^verbatim>\<open>\end{Shaded}\<close> around the line \<^verbatim>\<open>CODE\<close>,
  the rewrite gives a listing that holds the Shaded block unchanged, then
  \<^verbatim>\<open>\label{fig:1}\<close>, then \<^verbatim>\<open>\caption{A title}\<close>; rewriting the result again
  changes nothing.
\<close>

theorem new_content_example:
  "new_content
     (BSL # ''codeMetadata[fig:1]{A title}\<newline>'' @
      BSL # ''begin{Shaded}\<newline>CODE\<newline>'' @ BSL # ''end{Shaded}'') =
     ''\<newline>    '' @ BSL # ''begin{listing}\<newline>    '' @
     BSL # ''begin{Shaded}\<newline>CODE\<newline>'' @ BSL # ''end{Shaded}'' @
     BSL # ''label{fig:1}\<newline>    '' @
     BSL # ''caption{A title}\<newline>    '' @
     BSL # ''end{listing}\<newline>    '' \<and>
   new_content
     (''\<newline>    '' @ BSL # ''begin{listing}\<newline>    '' @
      BSL # ''begin{Shaded}\<newline>CODE\<newline>'' @ BSL # ''end{Shaded}'' @
      BSL # ''label{fig:1}\<newline>    '' @
      BSL # ''caption{A title}\<newline>    '' @
      BSL # ''end{listing}\<newline>    '') =
     ''\<newline>    '' @ BSL # ''begin{listing}\<newline>    '' @
     BSL # ''begin{Shaded}\<newline>CODE\<newline>'' @ BSL # ''end{Shaded}'' @
     BSL # ''label{fig:1}\<newline>    '' @
     BSL # ''caption{A title}\<newline>    '' @
     BSL # ''end{listing}\<newline>    ''"
  by (simp add: new_content_def match_here_def METADATA_REGEX_def REPLACEMENT_def
      percent_s_def label_char_def caption_char_def gap_char_def any_char_def is_space_def
      is_word_def in_range_def)

subsection \<open>The order of the steps of \<^verbatim>\<open>main\<close>\<close>

lemma convert_to_tex_result:
  "fst (convert_to_tex env root t s) =
     (case fst (env False (convert_command root (FLAGS s) t) s) of
        Exited rc out \<Rightarrow>
          if rc = 0 then
            (if highlight (FLAGS s) then
               (case snd (env False (convert_command root (FLAGS s) t) s)
                       (tex_filename (FLAGS s) t) of
                  None \<Rightarrow> Inl (OSError (tex_filename (FLAGS s) t))
                | Some c \<Rightarrow> Inr ())
             else Inr ())
          else Inl (CalledProcessError rc (convert_command root (FLAGS s) t))
      | NotStarted \<Rightarrow> Inl (OSError (concat (take 1 (convert_command root (FLAGS s) t)))))"
  by (simp add: convert_to_tex_def Let_def and_then_def call_pandoc_run convert_command_def
      process_metadata_def return_def split: outcome.splits option.splits)

lemma convert_command_shape:
  "\<exists>xs. convert_command root fl t = xs @ [''-o'', tex_filename fl t, t @ ''.md'']"
proof
  show "convert_command root fl t =
      (PANDOC # pandoc_args root fl @
        [''-f'', if markdown_tex fl then ''markdown'' else ''markdown-raw_tex'', ''-t'', ''latex''])
      @ [''-o'', tex_filename fl t, t @ ''.md'']"
    by (simp add: convert_command_def pandoc_command_def)
qed

lemma convert_to_tex_ok:
  assumes "always_exit_zero env" and "writes_output_file env"
  shows "fst (convert_to_tex env root t s) = Inr ()"
proof -
  obtain out where r: "fst (env False (convert_command root (FLAGS s) t) s) = Exited 0 out"
    using assms(1) unfolding always_exit_zero_def by blast
  obtain xs where "convert_command root (FLAGS s) t =
      xs @ [''-o'', tex_filename (FLAGS s) t, t @ ''.md'']"
    using convert_command_shape by blast
  then have "snd (env False (convert_command root (FLAGS s) t) s) (tex_filename (FLAGS s) t)
      \<noteq> None"
    using assms(2) unfolding writes_output_file_def by simp
  with r show ?thesis
    by (auto simp add: convert_to_tex_result)
qed

lemma convert_parts_ok:
  assumes "always_exit_zero env" and "writes_output_file env"
  shows "fst (convert_parts env root ps s) = Inr () \<and>
         FLAGS (snd (convert_parts env root ps s)) = FLAGS s \<and>
         map argv (invocations (snd (convert_parts env root ps s))) =
           map argv (invocations s) @ map (convert_command root (FLAGS s)) ps"
proof (induction ps arbitrary: s)
  case Nil
  show ?case by (simp add: return_def)
next
  case (Cons p ps)
  obtain s1 where c: "convert_to_tex env root p s = (Inr (), s1)"
    using convert_to_tex_ok [OF assms, of root p s] by (cases "convert_to_tex env root p s") auto
  have s1: "FLAGS s1 = FLAGS s"
    "invocations s1 = invocations s @
       [Invoke False (convert_command root (FLAGS s) p)
          (fst (env False (convert_command root (FLAGS s) p) s))]"
    using convert_to_tex_FLAGS [of env root p s] convert_to_tex_invocations [of env root p s] c
    by simp_all
  have "convert_parts env root (p # ps) s = convert_parts env root ps s1"
    using c by (simp add: and_then_def)
  then show ?case using Cons.IH [of s1] s1 by simp
qed

lemma build_pdf_commands:
  assumes "always_exit_zero env"
  shows "fst (build_pdf env fname s) = Inr () \<and>
         map argv (invocations (snd (build_pdf env fname s))) =
           map argv (invocations s) @ typeset_commands (FLAGS s) fname"
  by (simp add: build_pdf_def Let_def and_then_def shell_command_default_ok [OF assms]
      return_def typeset_commands_def)

lemma main_unfold:
  "main env root s =
     and_then
       (case part (derived_flags (FLAGS s)) of
          Some (p # ps) \<Rightarrow> convert_parts env root (p # ps)
        | _ \<Rightarrow> if pandoc (derived_flags (FLAGS s))
               then convert_to_tex env root (filename (derived_flags (FLAGS s)))
               else return ())
       (\<lambda>_. build_pdf env (filename (derived_flags (FLAGS s))))
       (s\<lparr>FLAGS := derived_flags (FLAGS s)\<rparr>)"
proof (cases "simple (FLAGS s) = Some True")
  case True
  then have "derived_flags (FLAGS s) = simple_settings (FLAGS s)"
    by (simp add: derived_flags_def)
  then show ?thesis using True
    by (simp add: main_def Let_def split: option.splits list.splits)
next
  case False
  then have "derived_flags (FLAGS s) = FLAGS s"
    by (simp add: derived_flags_def)
  then show ?thesis using False
    by (simp add: main_def Let_def split: option.splits list.splits)
qed

lemma main_parts_ok:
  assumes "always_exit_zero env" and "writes_output_file env"
    and "part (derived_flags (FLAGS s)) = Some (p # ps)"
  shows "fst (main env root s) = Inr () \<and>
         map argv (invocations (snd (main env root s))) =
           map argv (invocations s) @
           map (convert_command root (derived_flags (FLAGS s))) (p # ps) @
           typeset_commands (derived_flags (FLAGS s)) (filename (derived_flags (FLAGS s)))"
proof -
  let ?s0 = "s\<lparr>FLAGS := derived_flags (FLAGS s)\<rparr>"
  obtain s1 where c: "convert_parts env root (p # ps) ?s0 = (Inr (), s1)"
    using convert_parts_ok [OF assms(1,2), of root "p # ps" ?s0]
    by (cases "convert_parts env root (p # ps) ?s0") auto
  have s1: "FLAGS s1 = derived_flags (FLAGS s)"
    "map argv (invocations s1) =
       map argv (invocations s) @ map (convert_command root (derived_flags (FLAGS s))) (p # ps)"
    using convert_parts_ok [OF assms(1,2), of root "p # ps" ?s0] c by simp_all
  have "main env root s = build_pdf env (filename (derived_flags (FLAGS s))) s1"
    using c assms(3) by (simp add: main_unfold and_then_def del: convert_parts.simps)
  then show ?thesis
    using build_pdf_commands [OF assms(1), of "filename (derived_flags (FLAGS s))" s1] s1
    by simp
qed

lemma main_single_ok:
  assumes "always_exit_zero env" and "writes_output_file env"
    and "part (derived_flags (FLAGS s)) = None \<or> part (derived_flags (FLAGS s)) = Some []"
    and "pandoc (derived_flags (FLAGS s))"
  shows "fst (main env root s) = Inr () \<and>
         map argv (invocations (snd (main env root s))) =
           map argv (invocations s) @
           [convert_command root (derived_flags (FLAGS s)) (filename (derived_flags (FLAGS s)))] @
           typeset_commands (derived_flags (FLAGS s)) (filename (derived_flags (FLAGS s)))"
proof -
  let ?s0 = "s\<lparr>FLAGS := derived_flags (FLAGS s)\<rparr>"
  let ?f = "filename (derived_flags (FLAGS s))"
  obtain s1 where c: "convert_to_tex env root ?f ?s0 = (Inr (), s1)"
    using convert_to_tex_ok [OF assms(1,2), of root ?f ?s0]
    by (cases "convert_to_tex env root ?f ?s0") auto
  have s1: "FLAGS s1 = derived_flags (FLAGS s)"
    "map argv (invocations s1) =
       map argv (invocations s) @ [convert_command root (derived_flags (FLAGS s)) ?f]"
    using convert_to_tex_FLAGS [of env root ?f ?s0]
      convert_to_tex_invocations [of env root ?f ?s0] c by simp_all
  have "main env root s = build_pdf env ?f s1"
    using c assms(3,4) by (auto simp add: main_unfold and_then_def)
  then show ?thesis
    using build_pdf_commands [OF assms(1), of ?f s1] s1 by simp
qed

lemma part_derived: "part (derived_flags fl) = part fl"
  by (simp add: derived_flags_def simple_settings_eq)

lemma filename_derived: "filename (derived_flags fl) = filename fl"
  by (simp add: derived_flags_def simple_settings_eq)

lemma pandoc_derived: "pandoc (derived_flags fl) = pandoc fl"
  by (simp add: derived_flags_def simple_settings_eq)

lemma map_argv_invoked_since:
  assumes "map argv (invocations s') = map argv (invocations s) @ cs"
  shows "map argv (invoked_since s s') = cs"
proof -
  have "map argv (invoked_since s s') = drop (length (map argv (invocations s))) (map argv (invocations s'))"
    by (simp add: invoked_since_def drop_map)
  also have "\<dots> = cs" unfolding assms by simp
  finally show ?thesis .
qed

text \<open>
  Claim C4. When the external programs succeed and pandoc leaves its output file: with
  the parts \<^verbatim>\<open>a\<close> and \<^verbatim>\<open>b\<close> and the file name \<^verbatim>\<open>main\<close>, the commands run
  are the conversion of \<^verbatim>\<open>a\<close>, the conversion of \<^verbatim>\<open>b\<close>, and then the typeset
  step for \<^verbatim>\<open>main\<close>, and nothing else (no conversion of \<^verbatim>\<open>main\<close>); without
  parts and with the converter enabled, the commands are the conversion of the file name
  and then its typeset step.
\<close>

theorem main_parts_then_typeset:
  assumes "always_exit_zero env" and "writes_output_file env"
  shows "(part (FLAGS s) = Some [''a'', ''b''] \<and> filename (FLAGS s) = ''main'' \<longrightarrow>
            fst (main env root s) = Inr () \<and>
            map argv (invoked_since s (snd (main env root s))) =
              [convert_command root (derived_flags (FLAGS s)) ''a'',
               convert_command root (derived_flags (FLAGS s)) ''b''] @
              typeset_commands (derived_flags (FLAGS s)) ''main'') \<and>
         ((part (FLAGS s) = None \<or> part (FLAGS s) = Some []) \<and> pandoc (FLAGS s) \<longrightarrow>
            fst (main env root s) = Inr () \<and>
            map argv (invoked_since s (snd (main env root s))) =
              [convert_command root (derived_flags (FLAGS s)) (filename (FLAGS s))] @
              typeset_commands (derived_flags (FLAGS s)) (filename (FLAGS s)))"
proof (intro conjI impI)
  assume a: "part (FLAGS s) = Some [''a'', ''b''] \<and> filename (FLAGS s) = ''main''"
  then have p: "part (derived_flags (FLAGS s)) = Some [''a'', ''b'']"
    by (simp add: part_derived)
  from main_parts_ok [OF assms p, of root] a
  show "fst (main env root s) = Inr ()" by simp
  from main_parts_ok [OF assms p, of root] a
  have "map argv (invocations (snd (main env root s))) =
      map argv (invocations s) @
        ([convert_command root (derived_flags (FLAGS s)) ''a'',
          convert_command root (derived_flags (FLAGS s)) ''b''] @
         typeset_commands (derived_flags (FLAGS s)) ''main'')"
    by (simp add: filename_derived)
  then show "map argv (invoked_since s (snd (main env root s))) =
              [convert_command root (derived_flags (FLAGS s)) ''a'',
               convert_command root (derived_flags (FLAGS s)) ''b''] @
              typeset_commands (derived_flags (FLAGS s)) ''main''"
    by (rule map_argv_invoked_since)
next
  assume a: "(part (FLAGS s) = None \<or> part (FLAGS s) = Some []) \<and> pandoc (FLAGS s)"
  then have p: "part (derived_flags (FLAGS s)) = None \<or> part (derived_flags (FLAGS s)) = Some []"
    and q: "pandoc (derived_flags (FLAGS s))"
    by (simp_all add: part_derived pandoc_derived)
  from main_single_ok [OF assms p q, of root]
  show "fst (main env root s) = Inr ()" by simp
  from main_single_ok [OF assms p q, of root]
  have "map argv (invocations (snd (main env root s))) =
      map argv (invocations s) @
        ([convert_command root (derived_flags (FLAGS s)) (filename (FLAGS s))] @
         typeset_commands (derived_flags (FLAGS s)) (filename (FLAGS s)))"
    by (simp add: filename_derived)
  then show "map argv (invoked_since s (snd (main env root s))) =
              [convert_command root (derived_flags (FLAGS s)) (filename (FLAGS s))] @
              typeset_commands (derived_flags (FLAGS s)) (filename (FLAGS s))"
    by (rule map_argv_invoked_since)
qed


lemma always_exit_zero_pandoc_like: "always_exit_zero pandoc_like"
  by (simp add: always_exit_zero_def pandoc_like_def)

lemma writes_output_file_pandoc_like: "writes_output_file pandoc_like"
  by (simp add: writes_output_file_def pandoc_like_def nth_append)

theorem main_parts_then_typeset_witness:
  "always_exit_zero pandoc_like \<and> writes_output_file pandoc_like \<and>
   map argv (invocations (snd (main pandoc_like ''/opt/bl''
     (initial_state (default_flags\<lparr>part := Some [''a'', ''b''], highlight := True\<rparr>))))) =
     [[''pandoc'', ''--verbose'', ''--syntax-definition'', ''/opt/bl/third_party/typescript.xml'',
       ''--highlight=tango'', ''-f'', ''markdown'', ''-t'', ''latex'', ''-o'', ''a.tex'', ''a.md''],
      [''pandoc'', ''--verbose'', ''--syntax-definition'', ''/opt/bl/third_party/typescript.xml'',
       ''--highlight=tango'', ''-f'', ''markdown'', ''-t'', ''latex'', ''-o'', ''b.tex'', ''b.md''],
      [''xelatex'', ''-interaction=nonstopmode'', ''main.tex''],
      [''xelatex'', ''-interaction=nonstopmode'', ''main.tex'']] \<and>
   map argv (invocations (snd (main pandoc_like ''/opt/bl'' (initial_state default_flags)))) =
     [[''pandoc'', ''--verbose'', ''-f'', ''markdown'', ''-t'', ''latex'',
       ''-o'', ''main.tex'', ''main.md''],
      [''xelatex'', ''-interaction=nonstopmode'', ''main.tex''],
      [''xelatex'', ''-interaction=nonstopmode'', ''main.tex'']]"
  using
    main_parts_then_typeset [OF always_exit_zero_pandoc_like writes_output_file_pandoc_like,
      of "initial_state (default_flags\<lparr>part := Some [''a'', ''b''], highlight := True\<rparr>)"
         "''/opt/bl''"]
    main_parts_then_typeset [OF always_exit_zero_pandoc_like writes_output_file_pandoc_like,
      of "initial_state default_flags" "''/opt/bl''"]
  by (simp add: always_exit_zero_pandoc_like writes_output_file_pandoc_like invoked_since_def
      initial_state_def default_flags_def convert_command_def pandoc_command_def
      pandoc_args_def tex_filename_def typeset_commands_def derived_flags_def latex_args_def
      THIRD_PARTY_DIRECTORY_def PANDOC_def LATEX_def)

subsection \<open>A failed conversion ends the build\<close>












subsection \<open>Annotations the pattern does not match\<close>










lemma match_here_needs_start:
  assumes "\<not> prefix annotation_start s"
  shows "match_here METADATA_REGEX s = None"
proof -
  have "\<And>Y. rmatch (Then (Literal annotation_start) Y) s Map.empty (\<lambda>rest g. Some (rest, g)) = None"
    using assms by simp
  then show ?thesis
    by (simp only: match_here_def METADATA_REGEX_def annotation_start_def)
qed








subsection \<open>The pattern never matches the empty string\<close>

text \<open>
  Every match of the pattern takes at least one character, so the branch of
  \<open>re_sub\<close> for an empty match is never taken by \<open>new_content\<close>.
\<close>

lemma greedy_star_suffix:
  "greedy_star p s k = Some x \<Longrightarrow> \<exists>r. suffix r s \<and> k r = Some x"
proof (induction s)
  case Nil
  then show ?case by auto
next
  case (Cons c s)
  show ?case
  proof (cases "p c \<and> greedy_star p s k \<noteq> None")
    case True
    then have "greedy_star p s k = Some x" using Cons.prems by auto
    then obtain r where "suffix r s" and "k r = Some x" using Cons.IH by blast
    then show ?thesis by (meson suffix_ConsI)
  next
    case False
    then have "k (c # s) = Some x" using Cons.prems by (auto split: if_splits)
    then show ?thesis by blast
  qed
qed

lemma lazy_star_suffix:
  "lazy_star p s k = Some x \<Longrightarrow> \<exists>r. suffix r s \<and> k r = Some x"
proof (induction s)
  case Nil
  then show ?case by auto
next
  case (Cons c s)
  show ?case
  proof (cases "k (c # s)")
    case (Some y)
    then have "k (c # s) = Some x" using Cons.prems by simp
    then show ?thesis by blast
  next
    case None
    then have "lazy_star p s k = Some x" using Cons.prems by (simp split: if_splits)
    then obtain r where "suffix r s" and "k r = Some x" using Cons.IH by blast
    then show ?thesis by (meson suffix_ConsI)
  qed
qed

lemma rmatch_suffix:
  "rmatch r s g k = Some x \<Longrightarrow> \<exists>r' g'. suffix r' s \<and> k r' g' = Some x"
proof (induction r arbitrary: s g k)
  case (Literal w)
  then have "k (drop (length w) s) g = Some x" by (simp split: if_splits)
  moreover have "suffix (drop (length w) s) s" by (rule suffix_drop)
  ultimately show ?case by blast
next
  case (OneOrMore p)
  then obtain c s' where s: "s = c # s'" and "greedy_star p s' (\<lambda>r. k r g) = Some x"
    by (cases s) (auto split: if_splits)
  then obtain r where "suffix r s'" and "k r g = Some x"
    using greedy_star_suffix [of p s' "\<lambda>r. k r g" x] by blast
  then show ?case using s by (meson suffix_ConsI)
next
  case (ZeroOrMoreLazy p)
  then have "lazy_star p s (\<lambda>r. k r g) = Some x" by simp
  then show ?case using lazy_star_suffix [of p s "\<lambda>r. k r g" x] by blast
next
  case (Then a b)
  then have "rmatch a s g (\<lambda>r g'. rmatch b r g' k) = Some x" by simp
  then obtain r1 g1 where r1: "suffix r1 s" and "rmatch b r1 g1 k = Some x"
    using Then.IH(1) by blast
  then obtain r2 g2 where "suffix r2 r1" and "k r2 g2 = Some x"
    using Then.IH(2) by blast
  then show ?case using r1 by (meson suffix_order.trans)
next
  case (Capture n a)
  then have "rmatch a s g (\<lambda>r g'. k r (g'(n \<mapsto> take (length s - length r) s))) = Some x"
    by simp
  then show ?case using Capture.IH by blast
qed

lemma METADATA_REGEX_consumes:
  assumes "match_here METADATA_REGEX s = Some (rest, g)"
  shows "length rest < length s"
proof -
  obtain Y where Y: "METADATA_REGEX = Then (Literal annotation_start) Y"
    by (simp add: METADATA_REGEX_def annotation_start_def)
  have p: "prefix annotation_start s"
    using assms match_here_needs_start by fastforce
  then have "rmatch Y (drop (length annotation_start) s) Map.empty (\<lambda>rest g. Some (rest, g)) =
      Some (rest, g)"
    using assms unfolding match_here_def Y by simp
  then have "suffix rest (drop (length annotation_start) s)"
    using rmatch_suffix by fastforce
  then have "length rest \<le> length s - length annotation_start"
    using suffix_length_le by fastforce
  moreover have "length annotation_start \<le> length s" using p by (rule prefix_length_le)
  moreover have "0 < length annotation_start" by (simp add: annotation_start_def)
  ultimately show ?thesis by linarith
qed

subsection \<open>Annotations with a label or caption outside the character classes\<close>









end
